theory Spec2Isabelle
  imports Main "HOL-Library.AList"
begin

section \<open>Upgrade checks (events/upgrade.py)\<close>

text \<open>
  Exceptions that can travel through \<^verbatim>\<open>ZKUpgradeEvents.pre_upgrade_check\<close> and
  \<^verbatim>\<open>post_upgrade_check\<close>. \<^verbatim>\<open>ClusterNotReadyError\<close> and \<^verbatim>\<open>KubernetesClientError\<close>
  carry (message, cause). Every constructor is a subclass of Python's \<^verbatim>\<open>Exception\<close>;
  \<open>OtherError\<close> stands for any exception class that has no \<^verbatim>\<open>except\<close> clause of its own.
\<close>

datatype exn =
    QuorumLeaderNotFoundError
  | ConnectionClosedError
  | ModelError
  | ClusterNotReadyError string string
  | KubernetesClientError string string
  | OtherError string

text \<open>
  What one run of the checks observes. The three \<^verbatim>\<open>self.client\<close> properties are network
  probes of the ensemble and may raise; \<^verbatim>\<open>workload.healthy\<close> may raise \<^verbatim>\<open>ModelError\<close>.
  \<open>api_error\<close> is the \<^verbatim>\<open>ApiError\<close> (status code, text) raised by the StatefulSet patch,
  if any.
\<close>

record probe =
  idle :: bool
  api_error :: "(nat \<times> string) option"
  members_broadcasting :: "exn + bool"
  server_members :: "exn + nat"
  servers_count :: nat
  members_syncing :: "exn + bool"
  charm_stable :: bool
  workload_healthy :: "exn + bool"

definition default_message :: string where
  "default_message = ''Pre-upgrade check failed and cannot safely upgrade''"

definition cause_broadcasting :: string where
  "cause_broadcasting = ''Not all application units are connected and broadcasting in the quorum''"

definition cause_syncing :: string where
  "cause_syncing = ''Some quorum members are syncing data''"

definition cause_initialising :: string where
  "cause_initialising = ''Charm has not finished initialising''"

definition cause_leader_not_found :: string where
  "cause_leader_not_found = ''Quorum leader not found''"

definition cause_unable_to_connect :: string where
  "cause_unable_to_connect = ''Unable to connect to the cluster''"

definition cause_unknown :: string where
  "cause_unknown = ''Unknown error''"

text \<open>\<^verbatim>\<open>_set_rolling_update_partition\<close> (lines 162-178): an \<^verbatim>\<open>ApiError\<close> of the patch
  becomes a \<^verbatim>\<open>KubernetesClientError\<close>, with the trust hint on status 403. The StatefulSet
  that the patch changes is outside the model, so the partition \<open>part\<close> does not enter
  the result.\<close>

definition set_rolling_update_partition :: "probe \<Rightarrow> int \<Rightarrow> exn + unit" where
  "set_rolling_update_partition p part =
     (case api_error p of
        None \<Rightarrow> Inr ()
      | Some (code, txt) \<Rightarrow>
          Inl (KubernetesClientError ''Kubernetes StatefulSet patch failed''
                 (if code = 403 then ''`juju trust` needed'' else txt)))"

text \<open>The body of the \<^verbatim>\<open>try\<close> block of \<^verbatim>\<open>pre_upgrade_check\<close> (lines 115-134), with
  Python's left-to-right, short-circuit evaluation of \<^verbatim>\<open>or\<close>.\<close>

definition pre_check_body :: "probe \<Rightarrow> exn + unit" where
  "pre_check_body p =
     (case members_broadcasting p of
        Inl e \<Rightarrow> Inl e
      | Inr mb \<Rightarrow>
          if \<not> mb then Inl (ClusterNotReadyError default_message cause_broadcasting)
          else (case server_members p of
              Inl e \<Rightarrow> Inl e
            | Inr n \<Rightarrow>
                if \<not> (n = servers_count p)
                then Inl (ClusterNotReadyError default_message cause_broadcasting)
                else (case members_syncing p of
                    Inl e \<Rightarrow> Inl e
                  | Inr sy \<Rightarrow>
                      if sy then Inl (ClusterNotReadyError default_message cause_syncing)
                      else if \<not> charm_stable p
                      then Inl (ClusterNotReadyError default_message cause_initialising)
                      else Inr ())))"

text \<open>The \<^verbatim>\<open>except\<close> clauses (lines 136-146), tried in the order of the source. The last
  one, \<^verbatim>\<open>except Exception\<close>, matches every exception the first two did not take,
  \<^verbatim>\<open>ClusterNotReadyError\<close> included.\<close>

fun pre_check_except :: "exn \<Rightarrow> exn" where
  "pre_check_except QuorumLeaderNotFoundError =
     ClusterNotReadyError default_message cause_leader_not_found"
| "pre_check_except ConnectionClosedError =
     ClusterNotReadyError default_message cause_unable_to_connect"
| "pre_check_except e = ClusterNotReadyError default_message cause_unknown"

definition pre_upgrade_check :: "probe \<Rightarrow> exn + unit" where
  "pre_upgrade_check p =
     (case (if idle p then set_rolling_update_partition p (int (servers_count p) - 1)
            else Inr ()) of
        Inl e \<Rightarrow> Inl e
      | Inr _ \<Rightarrow>
          (case pre_check_body p of
             Inl e \<Rightarrow> Inl (pre_check_except e)
           | Inr u \<Rightarrow> Inr u))"

text \<open>One attempt of \<^verbatim>\<open>post_upgrade_check\<close> (lines 100-106), without the decorator.\<close>

definition post_upgrade_check_body :: "probe \<Rightarrow> exn + unit" where
  "post_upgrade_check_body p =
     (case pre_upgrade_check p of
        Inl e \<Rightarrow> Inl e
      | Inr _ \<Rightarrow>
          (case workload_healthy p of
             Inl e \<Rightarrow> Inl e
           | Inr h \<Rightarrow>
               if \<not> h
               then Inl (ClusterNotReadyError
                           ''Post-upgrade check failed and cannot safely upgrade''
                           ''Container service not ruunning'')
               else Inr ()))"

text \<open>
  The decorator \<^verbatim>\<open>@retry(stop=stop_after_attempt(5), wait=wait_random(min=1, max=5),
  reraise=True)\<close>: attempt \<open>n\<close> (counted from 1) runs the body on what it observes then; a
  success is returned, a failure of attempt \<open>n \<ge> stop\<close> is raised again as it is, any other
  failure sleeps and goes on to attempt \<open>n + 1\<close>. The length of the sleep does not enter the
  result and is left out.
\<close>

function retry_from :: "nat \<Rightarrow> nat \<Rightarrow> (nat \<Rightarrow> exn + unit) \<Rightarrow> exn + unit" where
  "retry_from stop n body =
     (case body n of
        Inr u \<Rightarrow> Inr u
      | Inl e \<Rightarrow> if stop \<le> n then Inl e else retry_from stop (Suc n) body)"
  by pat_completeness auto
termination
  by (relation "measure (\<lambda>(stop, n, body). stop - n)") auto

declare retry_from.simps [simp del]

definition post_upgrade_check :: "(nat \<Rightarrow> probe) \<Rightarrow> exn + unit" where
  "post_upgrade_check obs = retry_from 5 1 (\<lambda>n. post_upgrade_check_body (obs n))"

section \<open>Shared state (the two key-value scopes)\<close>

text \<open>
  A relation data bag is a Python dict of strings, kept as an association list.
  \<open>bag_get\<close> is \<^verbatim>\<open>relation_data.get(key, "")\<close>.
\<close>

type_synonym databag = "(string \<times> string) list"

definition bag_get :: "databag \<Rightarrow> string \<Rightarrow> string" where
  "bag_get d k = (case map_of d k of None \<Rightarrow> [] | Some v \<Rightarrow> v)"

text \<open>Modelled from the spec: \<^verbatim>\<open>RelationState.update(items)\<close> of core/models.py, which is
  not among the sources. The store is a key-value view; an update writes every given key
  with its value, in the order of the dict, and leaves the other keys alone.\<close>

definition bag_update :: "databag \<Rightarrow> (string \<times> string) list \<Rightarrow> databag" where
  "bag_update d items = fold (\<lambda>(k, v). AList.update k v) items d"

text \<open>Python's \<^verbatim>\<open>str\<close> on a non-negative \<^verbatim>\<open>int\<close>: the decimal numeral.\<close>

definition digits :: string where
  "digits = ''0123456789''"

fun str_nat :: "nat \<Rightarrow> string" where
  "str_nat n = (if n < 10 then [digits ! n] else str_nat (n div 10) @ [digits ! (n mod 10)])"

declare str_nat.simps [simp del]

text \<open>Modelled from the spec: the membership entries of the shared scope, which
  core/models.py (not among the sources) reads from the cluster's bag. An entry is keyed by
  a unit identifier, that is by a non-empty string of decimal digits, as
  \<^verbatim>\<open>str(init_leader.unit_id)\<close> at line 285 writes it.\<close>

definition is_unit_key :: "string \<Rightarrow> bool" where
  "is_unit_key k = (k \<noteq> [] \<and> list_all (\<lambda>c. c \<in> set digits) k)"

text \<open>
  Modelled from the spec: \<^verbatim>\<open>ZKServer\<close> of core/models.py (not among the sources), one
  ensemble member: its unit identifier, its published network address (empty while it has
  published none) and its unit-scope data bag. The keys \<^verbatim>\<open>state\<close>, \<^verbatim>\<open>unified\<close>,
  \<^verbatim>\<open>quorum\<close> and \<^verbatim>\<open>password-rotated\<close> are the ones charm.py writes.
\<close>

record ZKServer =
  unit_id :: nat
  host :: string
  relation_data :: databag

text \<open>Modelled from the spec: the properties \<^verbatim>\<open>started\<close>, \<^verbatim>\<open>unified\<close> and \<^verbatim>\<open>quorum\<close> of
  \<^verbatim>\<open>ZKServer\<close> (core/models.py): the node reports started, its unified flag is true, and
  the quorum mode it reports, each read from the key under which \<^verbatim>\<open>init_server\<close> and
  \<^verbatim>\<open>_restart\<close> publish it.\<close>

definition started :: "ZKServer \<Rightarrow> bool" where
  "started sv = (bag_get (relation_data sv) ''state'' = ''started'')"

definition unified :: "ZKServer \<Rightarrow> bool" where
  "unified sv = (bag_get (relation_data sv) ''unified'' = ''true'')"

definition server_quorum :: "ZKServer \<Rightarrow> string" where
  "server_quorum sv = bag_get (relation_data sv) ''quorum''"

text \<open>
  Modelled from the spec: \<^verbatim>\<open>ZKClient\<close> of core/models.py (not among the sources). The six
  fields hold what the client's properties return when \<^verbatim>\<open>update_client_data\<close> reads them;
  \<open>client_data\<close> is the bag of the client relation that \<^verbatim>\<open>client.update\<close> writes.
\<close>

record ZKClient =
  uris :: string
  endpoints :: string
  tls :: string
  username :: string
  password :: string
  chroot :: string
  client_data :: databag

datatype status = UnknownStatus | ActiveStatus | MaintenanceStatus string | WaitingStatus string

text \<open>Calls into the collaborators, in the order the handlers make them.\<close>

datatype effect =
    Defer
  | AcquireLock
  | WorkloadRestart
  | WorkloadStart
  | Sleep nat
  | SetZookeeperMyid
  | SetServerJvmflags
  | SetZookeeperDynamicProperties
  | SetZookeeperProperties
  | SetJaasConfig

text \<open>
  Modelled from the spec: \<^verbatim>\<open>ClusterState\<close> of core/cluster.py (not among the sources),
  together with what \<^verbatim>\<open>ZooKeeperCharm\<close> reads of its unit. \<open>unit\<close> is the own unit, by
  unit identifier; \<open>cluster\<close> is the application-scope bag; \<open>servers\<close> are the nodes, the
  own one among them; \<open>cluster_tls\<close> is the Certificate collaborator's "certificate
  relationship present" (\<^verbatim>\<open>state.cluster.tls\<close>) and \<open>rotate_passwords\<close> the cluster's
  password-rotation flag (\<^verbatim>\<open>state.cluster.rotate_passwords\<close>). \<open>status\<close> is the unit
  status and \<open>effects\<close> the calls made so far.
\<close>

record charm =
  unit :: nat
  is_leader :: bool
  peer_relation :: bool
  cluster :: databag
  cluster_tls :: bool
  rotate_passwords :: bool
  servers :: "ZKServer list"
  clients :: "ZKClient list"
  status :: status
  effects :: "effect list"

datatype event = RelationDepartedEvent "nat option" | LeaderElectedEvent | OtherEvent

text \<open>\<^verbatim>\<open>getattr(event, "departing_unit", None)\<close>: only a departure event has the
  attribute.\<close>

fun departing_unit :: "event \<Rightarrow> nat option" where
  "departing_unit (RelationDepartedEvent u) = u"
| "departing_unit LeaderElectedEvent = None"
| "departing_unit OtherEvent = None"

text \<open>\<^verbatim>\<open>isinstance(event, (RelationDepartedEvent, LeaderElectedEvent))\<close>.\<close>

fun departed_or_elected :: "event \<Rightarrow> bool" where
  "departed_or_elected (RelationDepartedEvent u) = True"
| "departed_or_elected LeaderElectedEvent = True"
| "departed_or_elected OtherEvent = False"

subsection \<open>Properties of the cluster state (core/cluster.py, core/models.py)\<close>

text \<open>Modelled from the spec: \<^verbatim>\<open>state.cluster.quorum\<close>, the current target mode, and
  \<^verbatim>\<open>state.cluster.switching_encryption\<close>, the transition flag, of \<^verbatim>\<open>ZKCluster\<close> in
  core/models.py (not among the sources), read from the keys under which charm.py writes
  them; the flag is set when its value is not empty.\<close>

definition cluster_quorum :: "charm \<Rightarrow> string" where
  "cluster_quorum ch = bag_get (cluster ch) ''quorum''"

definition switching_encryption :: "charm \<Rightarrow> bool" where
  "switching_encryption ch = (bag_get (cluster ch) ''switching-encryption'' \<noteq> [])"

text \<open>\<^verbatim>\<open>state.cluster.update(items)\<close> and \<^verbatim>\<open>state.unit_server.update(items)\<close>, both
  \<^verbatim>\<open>RelationState.update\<close>; the own server is the one with the own unit identifier.\<close>

definition cluster_update_items :: "charm \<Rightarrow> (string \<times> string) list \<Rightarrow> charm" where
  "cluster_update_items ch items = ch\<lparr>cluster := bag_update (cluster ch) items\<rparr>"

definition unit_server_update :: "charm \<Rightarrow> (string \<times> string) list \<Rightarrow> charm" where
  "unit_server_update ch items =
     ch\<lparr>servers := map (\<lambda>sv. if unit_id sv = unit ch
                               then sv\<lparr>relation_data := bag_update (relation_data sv) items\<rparr>
                               else sv) (servers ch)\<rparr>"

text \<open>\<^verbatim>\<open>state.unit_server.started\<close>: the own server reports started.\<close>

definition unit_server_started :: "charm \<Rightarrow> bool" where
  "unit_server_started ch = list_ex (\<lambda>sv. unit_id sv = unit ch \<and> started sv) (servers ch)"

text \<open>Modelled from the spec: the derived booleans of \<^verbatim>\<open>ClusterState\<close> in core/cluster.py,
  which is not among the sources, as section 4.2 defines them. All units are related when
  every node has published its address, unified when every node's unified flag is true, in
  quorum when every node's reported \<^verbatim>\<open>quorum\<close> equals the cluster's target mode; the
  cluster is healthy when all nodes report started.\<close>

definition all_units_related :: "charm \<Rightarrow> bool" where
  "all_units_related ch = list_all (\<lambda>sv. host sv \<noteq> []) (servers ch)"

definition all_units_unified :: "charm \<Rightarrow> bool" where
  "all_units_unified ch = list_all unified (servers ch)"

definition all_units_quorum :: "charm \<Rightarrow> bool" where
  "all_units_quorum ch = list_all (\<lambda>sv. server_quorum sv = cluster_quorum ch) (servers ch)"

definition healthy :: "charm \<Rightarrow> bool" where
  "healthy ch = list_all started (servers ch)"

text \<open>Modelled from the spec: \<^verbatim>\<open>stale_quorum\<close> and \<^verbatim>\<open>stable\<close> of \<^verbatim>\<open>ClusterState\<close>. The
  quorum is stale when the number of shared membership entries differs from the number of
  nodes that report started (section 4.1, step 2). The cluster is stable when the quorum
  is not stale, all units are related, and no encryption switch is in progress or all units
  are in quorum already (section 4.2).\<close>

definition stale_quorum :: "charm \<Rightarrow> bool" where
  "stale_quorum ch =
     (length (filter (\<lambda>kv. is_unit_key (fst kv)) (cluster ch)) \<noteq> length (filter started (servers ch)))"

definition stable :: "charm \<Rightarrow> bool" where
  "stable ch =
     (\<not> stale_quorum ch \<and> all_units_related ch \<and> (\<not> switching_encryption ch \<or> all_units_quorum ch))"

text \<open>Modelled from the spec: \<^verbatim>\<open>init_leader\<close> of \<^verbatim>\<open>ClusterState\<close>. The init leader is the
  node with the lowest unit identifier (section 4.1, step 1); there is none when there is
  no node.\<close>

fun lowest :: "ZKServer list \<Rightarrow> ZKServer option" where
  "lowest [] = None"
| "lowest (sv # svs) =
     (case lowest svs of
        None \<Rightarrow> Some sv
      | Some m \<Rightarrow> if unit_id sv \<le> unit_id m then Some sv else Some m)"

definition init_leader :: "charm \<Rightarrow> ZKServer option" where
  "init_leader ch = lowest (servers ch)"

text \<open>Modelled from the spec: \<^verbatim>\<open>QuorumManager.update_cluster\<close> of managers/quorum.py,
  which is not among the sources. It recomputes the full desired membership set (section
  4.1, step 2): every node that reports started is to be "added". The calls it makes to
  the ensemble are outside the charm's state and are left out.\<close>

definition update_cluster :: "charm \<Rightarrow> (string \<times> string) list" where
  "update_cluster ch = map (\<lambda>sv. (str_nat (unit_id sv), ''added'')) (filter started (servers ch))"

text \<open>Modelled from the spec: \<^verbatim>\<open>internal_user_credentials\<close> of \<^verbatim>\<open>ZKCluster\<close>. The
  internal service-account credentials (section 3) exist once both users of
  \<^verbatim>\<open>CHARM_USERS\<close> have the password that \<^verbatim>\<open>_on_install\<close> writes under
  \<^verbatim>\<open>{user}-password\<close>.\<close>

definition internal_user_credentials :: "charm \<Rightarrow> bool" where
  "internal_user_credentials ch =
     (bag_get (cluster ch) ''super-password'' \<noteq> [] \<and> bag_get (cluster ch) ''sync-password'' \<noteq> [])"

text \<open>Modelled from the spec: \<^verbatim>\<open>next_server\<close> of \<^verbatim>\<open>ClusterState\<close>. Nodes start in
  ascending unit-id order (section 4.1, step 1, and the bootstrap-ordering property), so
  the next server to start is the one with the lowest unit identifier that is not yet
  "added"; there is none when all are.\<close>

definition next_server :: "charm \<Rightarrow> ZKServer option" where
  "next_server ch =
     lowest (filter (\<lambda>sv. bag_get (cluster ch) (str_nat (unit_id sv)) \<noteq> ''added'') (servers ch))"

text \<open>\<^verbatim>\<open>state.ready\<close> is a property of core/cluster.py for which the spec gives no definition.
  It is a parameter of every function that reads it: a function of the shared scope, the
  certificate flag and the servers.\<close>

type_synonym ready_fn = "databag \<Rightarrow> bool \<Rightarrow> ZKServer list \<Rightarrow> bool"

section \<open>The charm (charm.py)\<close>

text \<open>The loop of \<^verbatim>\<open>update_client_data\<close> (lines 331-344): a client without password is
  skipped by \<^verbatim>\<open>continue\<close>.\<close>

definition client_update :: "ZKClient \<Rightarrow> (string \<times> string) list \<Rightarrow> ZKClient" where
  "client_update c items = c\<lparr>client_data := bag_update (client_data c) items\<rparr>"

definition client_items :: "ZKClient \<Rightarrow> (string \<times> string) list" where
  "client_items c =
     [(''uris'', uris c), (''endpoints'', endpoints c), (''tls'', tls c),
      (''username'', username c), (''password'', password c), (''chroot'', chroot c)]"

fun write_clients :: "ZKClient list \<Rightarrow> ZKClient list" where
  "write_clients [] = []"
| "write_clients (c # cs) =
     (if password c = [] then c # write_clients cs
      else client_update c (client_items c) # write_clients cs)"

definition update_client_data :: "ready_fn \<Rightarrow> charm \<Rightarrow> charm" where
  "update_client_data rdy ch =
     (if \<not> rdy (cluster ch) (cluster_tls ch) (servers ch) \<or> \<not> is_leader ch then ch
      else ch\<lparr>clients := write_clients (clients ch)\<rparr>)"

text \<open>\<^verbatim>\<open>update_quorum\<close>, lines 281-299: the init leader is marked, then the membership is
  recomputed and written.\<close>

definition mark_init_leader :: "charm \<Rightarrow> charm" where
  "mark_init_leader ch =
     (case init_leader ch of
        None \<Rightarrow> ch
      | Some l \<Rightarrow> if started l then cluster_update_items ch [(str_nat (unit_id l), ''added'')] else ch)"

definition update_members :: "event \<Rightarrow> charm \<Rightarrow> charm" where
  "update_members ev ch =
     (let ch1 = mark_init_leader ch
      in if stale_quorum ch1 \<or> departed_or_elected ev \<or> healthy ch1
         then cluster_update_items ch1 (update_cluster ch1)
         else ch1)"

text \<open>\<^verbatim>\<open>update_quorum\<close>, lines 308-322: the encryption switch, run only on a stable cluster.\<close>

definition switch_quorum :: "charm \<Rightarrow> charm" where
  "switch_quorum ch =
     (if all_units_unified ch
      then (let ch1 = (if cluster_tls ch then cluster_update_items ch [(''quorum'', ''ssl'')]
                       else cluster_update_items ch [(''quorum'', ''non-ssl'')])
            in if all_units_quorum ch1 then cluster_update_items ch1 [(''switching-encryption'', [])]
               else ch1)
      else ch)"

definition update_quorum :: "ready_fn \<Rightarrow> event \<Rightarrow> charm \<Rightarrow> charm" where
  "update_quorum rdy ev ch =
     (if \<not> is_leader ch \<or> departing_unit ev = Some (unit ch) then ch
      else (let ch1 = update_members ev ch
            in if \<not> stable ch1 then ch1
               else update_client_data rdy (switch_quorum ch1)))"

text \<open>\<^verbatim>\<open>_restart\<close>, lines 188-215.\<close>

definition restart :: "ready_fn \<Rightarrow> charm \<Rightarrow> charm" where
  "restart rdy ch =
     (if \<not> stable ch then ch\<lparr>effects := effects ch @ [Defer]\<rparr>
      else (let ch1 = ch\<lparr>effects := effects ch @ [WorkloadRestart, Sleep 5]\<rparr>;
                ch2 = ch1\<lparr>status := ActiveStatus\<rparr>;
                ch3 = unit_server_update ch2
                        [(''unified'', if switching_encryption ch2 then ''true'' else []),
                         (''quorum'', cluster_quorum ch2),
                         (''password-rotated'', if rotate_passwords ch2 then ''true'' else [])]
            in update_client_data rdy ch3))"

text \<open>\<^verbatim>\<open>init_server\<close>, lines 219-271.\<close>

definition init_server :: "charm \<Rightarrow> charm" where
  "init_server ch =
     (if \<not> internal_user_credentials ch
      then ch\<lparr>status := MaintenanceStatus ''waiting for passwords to be created''\<rparr>
      else if \<not> all_units_related ch then ch
      else if (case next_server ch of None \<Rightarrow> False | Some sv \<Rightarrow> unit_id sv \<noteq> unit ch)
      then ch\<lparr>status := MaintenanceStatus ''waiting for unit turn to start''\<rparr>
      else (let ch1 = ch\<lparr>status := MaintenanceStatus ''starting ZooKeeper server''\<rparr>;
                ch2 = ch1\<lparr>effects := effects ch1 @
                        [SetZookeeperMyid, SetServerJvmflags, SetZookeeperDynamicProperties,
                         SetZookeeperProperties, SetJaasConfig, WorkloadStart]\<rparr>;
                ch3 = ch2\<lparr>status := ActiveStatus\<rparr>
            in unit_server_update ch3
                 [(''state'', ''started''),
                  (''unified'', if switching_encryption ch3 then ''true'' else []),
                  (''quorum'', cluster_quorum ch3)]))"

text \<open>
  \<^verbatim>\<open>_on_cluster_relation_changed\<close>, lines 134-165. \<open>alive\<close> is what \<^verbatim>\<open>workload.alive()\<close>
  returns and \<open>config_changed\<close> what \<^verbatim>\<open>config_manager.config_changed()\<close> returns at line
  159 (true when the materialized configuration differs from the applied one).
  \<open>startup_and_quorum\<close> is lines 144-149: the start-up attempt and the quorum update.
\<close>

definition startup_and_quorum :: "ready_fn \<Rightarrow> event \<Rightarrow> charm \<Rightarrow> charm" where
  "startup_and_quorum rdy ev ch =
     (let ch1 = (if \<not> unit_server_started ch then init_server ch else ch)
      in update_quorum rdy ev ch1)"

definition on_cluster_relation_changed ::
  "ready_fn \<Rightarrow> bool \<Rightarrow> bool \<Rightarrow> event \<Rightarrow> charm \<Rightarrow> charm" where
  "on_cluster_relation_changed rdy alive config_changed ev ch =
     (if \<not> alive then ch\<lparr>effects := effects ch @ [Defer]\<rparr>
      else if \<not> peer_relation ch then ch
      else (let ch2 = startup_and_quorum rdy ev ch
            in if departing_unit ev = Some (unit ch2) then ch2
               else (let ch3 = (if (config_changed \<or> switching_encryption ch2)
                                     \<and> unit_server_started ch2
                                then ch2\<lparr>effects := effects ch2 @ [AcquireLock]\<rparr>
                                else ch2)
                     in if switching_encryption ch3 \<and> length (servers ch3) = 1
                        then ch3\<lparr>effects := effects ch3 @ [Defer]\<rparr>
                        else ch3)))"

text \<open>The calls a handler has added to the ones made before it ran.\<close>

definition emitted :: "charm \<Rightarrow> charm \<Rightarrow> effect list" where
  "emitted before after = drop (length (effects before)) (effects after)"

text \<open>
  The membership part of the shared scope is settled for an event when lines 281-299 of
  \<^verbatim>\<open>update_quorum\<close> have nothing new to write: the init leader, if started, is "added",
  and if the membership is to be recomputed, every started node is "added" already.
\<close>

definition members_settled :: "event \<Rightarrow> charm \<Rightarrow> bool" where
  "members_settled ev ch =
     ((\<forall>l. init_leader ch = Some l \<longrightarrow> started l \<longrightarrow>
            map_of (cluster ch) (str_nat (unit_id l)) = Some ''added'')
      \<and> (stale_quorum ch \<or> departed_or_elected ev \<or> healthy ch \<longrightarrow>
           (\<forall>sv \<in> set (servers ch). started sv \<longrightarrow>
              map_of (cluster ch) (str_nat (unit_id sv)) = Some ''added'')))"

section \<open>Concrete ensembles and runs\<close>

definition node :: "nat \<Rightarrow> string \<Rightarrow> string \<Rightarrow> string \<Rightarrow> ZKServer" where
  "node i st un q =
     \<lparr>unit_id = i, host = ''zookeeper-k8s-'' @ str_nat i,
      relation_data = [(''state'', st), (''unified'', un), (''quorum'', q)]\<rparr>"

definition always_ready :: ready_fn where
  "always_ready d t svs = True"

text \<open>Three started nodes that all run with port unification during a switch to TLS; unit 0
  is the leader.\<close>

definition unified_cluster :: charm where
  "unified_cluster =
     \<lparr>unit = 0, is_leader = True, peer_relation = True,
      cluster = [(''0'', ''added''), (''1'', ''added''), (''2'', ''added''),
                 (''quorum'', ''non-ssl''), (''switching-encryption'', ''started'')],
      cluster_tls = True, rotate_passwords = False,
      servers = [node 0 ''started'' ''true'' ''non-ssl'', node 1 ''started'' ''true'' ''non-ssl'',
                 node 2 ''started'' ''true'' ''non-ssl''],
      clients = [], status = ActiveStatus, effects = []\<rparr>"

text \<open>The same ensemble while unit 2 has not yet restarted with port unification.\<close>

definition unifying_cluster :: charm where
  "unifying_cluster =
     unified_cluster\<lparr>servers := [node 0 ''started'' ''true'' ''non-ssl'',
                                 node 1 ''started'' ''true'' ''non-ssl'',
                                 node 2 ''started'' [] ''non-ssl'']\<rparr>"

text \<open>The ensemble after every node has restarted with the new target mode.\<close>

definition switched_cluster :: charm where
  "switched_cluster =
     unified_cluster\<lparr>cluster := [(''0'', ''added''), (''1'', ''added''), (''2'', ''added''),
                                 (''quorum'', ''ssl''), (''switching-encryption'', ''started'')],
                     servers := [node 0 ''started'' ''true'' ''ssl'', node 1 ''started'' ''true'' ''ssl'',
                                 node 2 ''started'' ''true'' ''ssl'']\<rparr>"

text \<open>Bootstrap: unit 0 has started and leads, unit 1 has published no address yet and has
  not started, nothing is "added".\<close>

definition bootstrap_cluster :: charm where
  "bootstrap_cluster =
     \<lparr>unit = 0, is_leader = True, peer_relation = True,
      cluster = [(''super-password'', ''s3cret''), (''sync-password'', ''s3cret''),
                 (''quorum'', ''default - non-ssl'')],
      cluster_tls = False, rotate_passwords = False,
      servers = [node 0 ''started'' [] ''default - non-ssl'', (node 1 [] [] [])\<lparr>host := []\<rparr>],
      clients = [], status = ActiveStatus, effects = []\<rparr>"

text \<open>Unit 1 of an ensemble whose leader has not created the passwords yet: it cannot
  start.\<close>

definition waiting_unit :: charm where
  "waiting_unit =
     \<lparr>unit = 1, is_leader = False, peer_relation = True,
      cluster = [],
      cluster_tls = False, rotate_passwords = False,
      servers = [node 0 [] [] [], node 1 [] [] []],
      clients = [], status = UnknownStatus, effects = []\<rparr>"

text \<open>Unit 1 of a settled two-node ensemble.\<close>

definition started_unit :: charm where
  "started_unit =
     \<lparr>unit = 1, is_leader = False, peer_relation = True,
      cluster = [(''0'', ''added''), (''1'', ''added''), (''quorum'', ''non-ssl'')],
      cluster_tls = False, rotate_passwords = False,
      servers = [node 0 ''started'' [] ''non-ssl'', node 1 ''started'' [] ''non-ssl''],
      clients = [], status = ActiveStatus, effects = []\<rparr>"

definition provisioned_client :: ZKClient where
  "provisioned_client =
     \<lparr>uris = ''zookeeper-k8s-0:2181/app'', endpoints = ''zookeeper-k8s-0'', tls = ''disabled'',
      username = ''relation-7'', password = ''pw7'', chroot = ''/app'', client_data = []\<rparr>"

definition pending_client :: ZKClient where
  "pending_client =
     \<lparr>uris = ''zookeeper-k8s-0:2181/other'', endpoints = ''zookeeper-k8s-0'', tls = ''disabled'',
      username = ''relation-8'', password = [], chroot = ''/other'', client_data = []\<rparr>"

definition serving_cluster :: charm where
  "serving_cluster = started_unit\<lparr>unit := 0, is_leader := True,
                                  clients := [pending_client, provisioned_client]\<rparr>"

text \<open>Observations of the upgrade checks: a healthy ensemble, one with a member that is
  syncing, one whose members are not all broadcasting, and a run that syncs during its
  first two attempts.\<close>

definition probe_ready :: probe where
  "probe_ready =
     \<lparr>idle = False, api_error = None, members_broadcasting = Inr True, server_members = Inr 3,
      servers_count = 3, members_syncing = Inr False, charm_stable = True,
      workload_healthy = Inr True\<rparr>"

definition probe_syncing :: probe where
  "probe_syncing = probe_ready\<lparr>members_syncing := Inr True\<rparr>"

definition probe_not_broadcasting :: probe where
  "probe_not_broadcasting = probe_ready\<lparr>members_broadcasting := Inr False\<rparr>"

definition transient_run :: "nat \<Rightarrow> probe" where
  "transient_run n = (if n < 3 then probe_syncing else probe_ready)"

section \<open>Data bags and unit keys\<close>

lemma map_of_bag_update_other:
  "k \<notin> fst ` set items \<Longrightarrow> map_of (bag_update d items) k = map_of d k"
  unfolding bag_update_def
  by (induction items arbitrary: d) (auto simp: update_conv')

lemma map_of_bag_update_distinct:
  "distinct (map fst items) \<Longrightarrow> (k, v) \<in> set items \<Longrightarrow> map_of (bag_update d items) k = Some v"
proof (induction items arbitrary: d)
  case Nil
  then show ?case by simp
next
  case (Cons a items)
  obtain k' v' where a: "a = (k', v')" by (cases a)
  have step: "bag_update d (a # items) = bag_update (AList.update k' v' d) items"
    by (simp add: bag_update_def a)
  show ?case
  proof (cases "(k, v) \<in> set items")
    case True
    then show ?thesis using Cons step by simp
  next
    case False
    then have kv: "k = k'" "v = v'" using Cons.prems a by auto
    have "k' \<notin> fst ` set items" using Cons.prems a by auto
    then show ?thesis using step kv by (simp add: map_of_bag_update_other update_conv')
  qed
qed

lemma bag_update_triv:
  "\<forall>(k, v) \<in> set items. map_of d k = Some v \<Longrightarrow> bag_update d items = d"
  unfolding bag_update_def
  by (induction items arbitrary: d) (auto simp: update_triv)

lemma bag_update_idem:
  "distinct (map fst items) \<Longrightarrow> bag_update (bag_update d items) items = bag_update d items"
  by (rule bag_update_triv) (auto simp: map_of_bag_update_distinct)

lemma bag_get_update_single:
  "bag_get (bag_update d [(k, v)]) k' = (if k' = k then v else bag_get d k')"
  by (simp add: bag_get_def bag_update_def update_conv')

lemma bag_get_update_other:
  "k \<notin> fst ` set items \<Longrightarrow> bag_get (bag_update d items) k = bag_get d k"
  by (simp add: bag_get_def map_of_bag_update_other)

lemma filter_update_other:
  "\<not> P k \<Longrightarrow> filter (\<lambda>kv. P (fst kv)) (AList.update k v d) = filter (\<lambda>kv. P (fst kv)) d"
  by (induction d) auto

lemma str_nat_digits: "set (str_nat n) \<subseteq> set digits"
proof (induction n rule: str_nat.induct)
  case (1 n)
  have d: "\<And>m. m < 10 \<Longrightarrow> digits ! m \<in> set digits"
    by (rule nth_mem) (simp add: digits_def)
  show ?case
  proof (cases "n < 10")
    case True
    then show ?thesis using d [of n] by (subst str_nat.simps) simp
  next
    case False
    have "n mod 10 < 10" by simp
    then have "digits ! (n mod 10) \<in> set digits" by (rule d)
    then show ?thesis using False "1.IH" by (subst str_nat.simps) simp
  qed
qed

lemma str_nat_not_Nil: "str_nat n \<noteq> []"
  by (subst str_nat.simps) simp

lemma is_unit_key_str_nat: "is_unit_key (str_nat n)"
  using str_nat_digits [of n] str_nat_not_Nil [of n]
  by (auto simp: is_unit_key_def list_all_iff)

lemma not_unit_key_quorum: "\<not> is_unit_key ''quorum''"
  by (simp add: is_unit_key_def digits_def)

lemma not_unit_key_switching: "\<not> is_unit_key ''switching-encryption''"
  by (simp add: is_unit_key_def digits_def)

lemma str_nat_neq_quorum: "str_nat n \<noteq> ''quorum''"
  using is_unit_key_str_nat [of n] not_unit_key_quorum by auto

lemma str_nat_neq_switching: "str_nat n \<noteq> ''switching-encryption''"
  using is_unit_key_str_nat [of n] not_unit_key_switching by auto

lemma map_of_bag_update_const:
  "\<forall>kv \<in> set items. snd kv = v \<Longrightarrow> map_of d k = Some v \<or> k \<in> fst ` set items \<Longrightarrow>
     map_of (bag_update d items) k = Some v"
  unfolding bag_update_def
proof (induction items arbitrary: d)
  case Nil
  then show ?case by simp
next
  case (Cons a items)
  obtain k' v' where a: "a = (k', v')" by (cases a)
  have v': "v' = v" using Cons.prems(1) a by simp
  have "map_of (AList.update k' v' d) k = Some v \<or> k \<in> fst ` set items"
    using Cons.prems(2) a v' by (auto simp: update_conv')
  then have "map_of (fold (\<lambda>(k, v). AList.update k v) items (AList.update k' v' d)) k = Some v"
    using Cons.IH Cons.prems(1) by simp
  then show ?case by (simp add: a)
qed

lemma get_bag_update_added:
  "bag_get d k = ''added'' \<Longrightarrow> \<forall>kv \<in> set items. snd kv = ''added'' \<Longrightarrow>
     bag_get (bag_update d items) k = ''added''"
  unfolding bag_update_def
  by (induction items arbitrary: d) (auto simp: bag_get_def update_conv')

section \<open>What each part of \<open>update_quorum\<close> leaves alone\<close>

lemma update_cluster_keys: "fst ` set (update_cluster ch) \<subseteq> range str_nat"
  by (auto simp: update_cluster_def)

lemma mark_init_leader_frame:
  "mark_init_leader ch = ch\<lparr>cluster := cluster (mark_init_leader ch)\<rparr>"
  by (simp add: mark_init_leader_def cluster_update_items_def split: option.splits)

lemma update_members_frame:
  "update_members ev ch = ch\<lparr>cluster := cluster (update_members ev ch)\<rparr>"
  by (simp add: update_members_def Let_def mark_init_leader_def cluster_update_items_def
      split: option.splits)

lemma switch_quorum_frame:
  "switch_quorum ch = ch\<lparr>cluster := cluster (switch_quorum ch)\<rparr>"
  by (simp add: switch_quorum_def Let_def cluster_update_items_def)

lemma update_client_data_frame:
  "update_client_data rdy ch = ch\<lparr>clients := clients (update_client_data rdy ch)\<rparr>"
  by (simp add: update_client_data_def)

lemma get_mark_init_leader_other:
  "k \<notin> range str_nat \<Longrightarrow> bag_get (cluster (mark_init_leader ch)) k = bag_get (cluster ch) k"
  by (auto simp: mark_init_leader_def cluster_update_items_def bag_get_update_single
      split: option.splits)

lemma get_update_members_other:
  assumes "k \<notin> range str_nat"
  shows "bag_get (cluster (update_members ev ch)) k = bag_get (cluster ch) k"
proof -
  have "k \<notin> fst ` set (update_cluster (mark_init_leader ch))"
    using assms update_cluster_keys by blast
  then show ?thesis
    using assms
    by (simp add: update_members_def Let_def cluster_update_items_def bag_get_update_other
        get_mark_init_leader_other)
qed

lemma quorum_not_str_nat: "''quorum'' \<notin> range str_nat"
  using str_nat_neq_quorum by (metis rangeE)

lemma switching_not_str_nat: "''switching-encryption'' \<notin> range str_nat"
  using str_nat_neq_switching by (metis rangeE)

lemma servers_update_members [simp]: "servers (update_members ev ch) = servers ch"
  by (subst update_members_frame) simp

lemma servers_switch_quorum [simp]: "servers (switch_quorum ch) = servers ch"
  by (subst switch_quorum_frame) simp

lemma servers_update_client_data [simp]: "servers (update_client_data rdy ch) = servers ch"
  by (subst update_client_data_frame) simp

lemma cluster_update_client_data [simp]: "cluster (update_client_data rdy ch) = cluster ch"
  by (subst update_client_data_frame) simp

lemma cluster_tls_update_members [simp]: "cluster_tls (update_members ev ch) = cluster_tls ch"
  by (subst update_members_frame) simp

lemma cluster_quorum_update_members:
  "cluster_quorum (update_members ev ch) = cluster_quorum ch"
  by (simp add: cluster_quorum_def get_update_members_other quorum_not_str_nat)

lemma switching_update_members:
  "switching_encryption (update_members ev ch) = switching_encryption ch"
  by (simp add: switching_encryption_def get_update_members_other switching_not_str_nat)

lemma all_units_unified_cong: "servers a = servers b \<Longrightarrow> all_units_unified a = all_units_unified b"
  by (simp add: all_units_unified_def)

lemma all_units_quorum_cong:
  "servers a = servers b \<Longrightarrow> cluster a = cluster b \<Longrightarrow> all_units_quorum a = all_units_quorum b"
  by (simp add: all_units_quorum_def cluster_quorum_def)

lemma cluster_quorum_switch_quorum:
  "cluster_quorum (switch_quorum ch) =
     (if all_units_unified ch then (if cluster_tls ch then ''ssl'' else ''non-ssl'')
      else cluster_quorum ch)"
  by (simp add: switch_quorum_def Let_def cluster_update_items_def cluster_quorum_def
      bag_get_update_single)

lemma cluster_quorum_update_quorum:
  "cluster_quorum (update_quorum rdy ev ch) =
     (if is_leader ch \<and> departing_unit ev \<noteq> Some (unit ch) \<and> stable (update_members ev ch)
         \<and> all_units_unified ch
      then (if cluster_tls ch then ''ssl'' else ''non-ssl'')
      else cluster_quorum ch)"
proof -
  have u: "all_units_unified (update_members ev ch) = all_units_unified ch"
    by (rule all_units_unified_cong) simp
  have q: "\<And>x. cluster_quorum (update_client_data rdy x) = cluster_quorum x"
    by (simp add: cluster_quorum_def)
  show ?thesis
    by (simp add: update_quorum_def Let_def q cluster_quorum_switch_quorum u
        cluster_quorum_update_members)
qed

lemma is_leader_update_members [simp]: "is_leader (update_members ev ch) = is_leader ch"
  by (subst update_members_frame) simp

lemma unit_update_members [simp]: "unit (update_members ev ch) = unit ch"
  by (subst update_members_frame) simp

lemma is_leader_switch_quorum [simp]: "is_leader (switch_quorum ch) = is_leader ch"
  by (subst switch_quorum_frame) simp

lemma unit_switch_quorum [simp]: "unit (switch_quorum ch) = unit ch"
  by (subst switch_quorum_frame) simp

lemma is_leader_update_client_data [simp]: "is_leader (update_client_data rdy ch) = is_leader ch"
  by (subst update_client_data_frame) simp

lemma unit_update_client_data [simp]: "unit (update_client_data rdy ch) = unit ch"
  by (subst update_client_data_frame) simp

lemma effects_update_client_data [simp]: "effects (update_client_data rdy ch) = effects ch"
  by (subst update_client_data_frame) simp

lemma status_update_client_data [simp]: "status (update_client_data rdy ch) = status ch"
  by (subst update_client_data_frame) simp

lemma effects_update_quorum [simp]: "effects (update_quorum rdy ev ch) = effects ch"
proof -
  have a: "effects (update_members ev ch) = effects ch"
    by (subst update_members_frame) simp
  have b: "\<And>x. effects (switch_quorum x) = effects x"
    subgoal for x by (subst switch_quorum_frame) simp
    done
  show ?thesis by (simp add: update_quorum_def Let_def a b)
qed

lemma unit_update_quorum [simp]: "unit (update_quorum rdy ev ch) = unit ch"
  by (simp add: update_quorum_def Let_def)

lemma unit_init_server [simp]: "unit (init_server ch) = unit ch"
  by (simp add: init_server_def Let_def unit_server_update_def)

lemma effects_init_server:
  "\<exists>es. effects (init_server ch) = effects ch @ es \<and> AcquireLock \<notin> set es"
  by (simp add: init_server_def Let_def unit_server_update_def)

lemma effects_startup_and_quorum:
  "\<exists>es. effects (startup_and_quorum rdy ev ch) = effects ch @ es \<and> AcquireLock \<notin> set es"
  using effects_init_server [of ch] by (simp add: startup_and_quorum_def Let_def)

lemma unit_startup_and_quorum [simp]: "unit (startup_and_quorum rdy ev ch) = unit ch"
  by (simp add: startup_and_quorum_def Let_def)

lemma acquire_lock_emitted:
  "AcquireLock \<in> set (emitted ch (on_cluster_relation_changed rdy alive cfg ev ch)) \<longleftrightarrow>
     alive \<and> peer_relation ch \<and> departing_unit ev \<noteq> Some (unit ch)
     \<and> (cfg \<or> switching_encryption (startup_and_quorum rdy ev ch))
     \<and> unit_server_started (startup_and_quorum rdy ev ch)"
proof -
  obtain es where es: "effects (startup_and_quorum rdy ev ch) = effects ch @ es"
      and no: "AcquireLock \<notin> set es"
    using effects_startup_and_quorum by blast
  show ?thesis
    using no
    by (auto simp: on_cluster_relation_changed_def Let_def emitted_def es)
qed

section \<open>The switching flag and the membership entries\<close>

lemma switching_update_client_data:
  "switching_encryption (update_client_data rdy ch) = switching_encryption ch"
  by (simp add: switching_encryption_def)

lemma all_units_quorum_update_client_data:
  "all_units_quorum (update_client_data rdy ch) = all_units_quorum ch"
  by (rule all_units_quorum_cong) simp_all

lemma switching_switch_quorum:
  "switching_encryption (switch_quorum ch) \<noteq> switching_encryption ch \<Longrightarrow>
     all_units_quorum (switch_quorum ch)"
  by (auto simp: switch_quorum_def Let_def cluster_update_items_def switching_encryption_def
      all_units_quorum_def cluster_quorum_def bag_get_update_single split: if_splits)

lemma switching_switch_quorum_off:
  "switching_encryption (switch_quorum ch) \<noteq> switching_encryption ch \<Longrightarrow>
     \<not> switching_encryption (switch_quorum ch)"
  by (auto simp: switch_quorum_def Let_def cluster_update_items_def switching_encryption_def
      bag_get_update_single split: if_splits)

lemma update_cluster_values: "\<forall>kv \<in> set (update_cluster ch). snd kv = ''added''"
  by (auto simp: update_cluster_def)

lemma get_mark_init_leader:
  "init_leader ch = Some l \<Longrightarrow> started l \<Longrightarrow>
     bag_get (cluster (mark_init_leader ch)) (str_nat (unit_id l)) = ''added''"
  by (simp add: mark_init_leader_def cluster_update_items_def bag_get_update_single)

lemma get_update_members_added:
  "bag_get (cluster (mark_init_leader ch)) k = ''added'' \<Longrightarrow>
     bag_get (cluster (update_members ev ch)) k = ''added''"
  by (simp add: update_members_def Let_def cluster_update_items_def get_bag_update_added
      update_cluster_values)

lemma get_switch_quorum_other:
  "k \<in> range str_nat \<Longrightarrow> bag_get (cluster (switch_quorum ch)) k = bag_get (cluster ch) k"
  using str_nat_neq_quorum str_nat_neq_switching
  by (auto simp: switch_quorum_def Let_def cluster_update_items_def bag_get_update_single)

lemma switching_change_clears:
  "switching_encryption (update_quorum rdy ev ch) \<noteq> switching_encryption ch \<Longrightarrow>
     switching_encryption ch \<and> \<not> switching_encryption (update_quorum rdy ev ch)
     \<and> all_units_quorum (update_quorum rdy ev ch)"
proof -
  assume a: "switching_encryption (update_quorum rdy ev ch) \<noteq> switching_encryption ch"
  let ?m = "update_members ev ch"
  have run: "update_quorum rdy ev ch = update_client_data rdy (switch_quorum ?m)"
    using a by (auto simp: update_quorum_def Let_def switching_update_members split: if_splits)
  have neq: "switching_encryption (switch_quorum ?m) \<noteq> switching_encryption ?m"
    using a by (simp add: run switching_update_client_data switching_update_members)
  have "all_units_quorum (switch_quorum ?m)"
    using neq by (rule switching_switch_quorum)
  then have "all_units_quorum (update_quorum rdy ev ch)"
    by (simp add: run all_units_quorum_update_client_data)
  moreover have "\<not> switching_encryption (switch_quorum ?m)"
    using neq by (rule switching_switch_quorum_off)
  then have "\<not> switching_encryption (update_quorum rdy ev ch)"
    by (simp add: run switching_update_client_data)
  ultimately show ?thesis using a by auto
qed

lemma switching_init_server [simp]:
  "switching_encryption (init_server ch) = switching_encryption ch"
  by (simp add: init_server_def Let_def unit_server_update_def switching_encryption_def)

lemma switching_restart:
  "switching_encryption (restart rdy ch) = switching_encryption ch"
  by (simp add: restart_def Let_def unit_server_update_def switching_encryption_def)

lemma switching_change_in_handler:
  assumes "switching_encryption (on_cluster_relation_changed rdy alive cfg ev ch)
      \<noteq> switching_encryption ch"
  shows "switching_encryption ch
       \<and> \<not> switching_encryption (on_cluster_relation_changed rdy alive cfg ev ch)
       \<and> all_units_quorum (on_cluster_relation_changed rdy alive cfg ev ch)"
proof -
  let ?s = "if \<not> unit_server_started ch then init_server ch else ch"
  let ?q = "update_quorum rdy ev ?s"
  let ?r = "on_cluster_relation_changed rdy alive cfg ev ch"
  have go: "alive \<and> peer_relation ch"
  proof (rule ccontr)
    assume "\<not> (alive \<and> peer_relation ch)"
    then have "cluster ?r = cluster ch"
      by (auto simp: on_cluster_relation_changed_def)
    then have "switching_encryption ?r = switching_encryption ch"
      by (simp add: switching_encryption_def)
    then show False using assms by simp
  qed
  have same: "cluster ?r = cluster ?q \<and> servers ?r = servers ?q"
    using go by (simp add: on_cluster_relation_changed_def startup_and_quorum_def Let_def)
  then have sw: "switching_encryption ?r = switching_encryption ?q"
    and aq: "all_units_quorum ?r = all_units_quorum ?q"
    by (simp_all add: switching_encryption_def all_units_quorum_def cluster_quorum_def)
  have st: "switching_encryption ?s = switching_encryption ch"
    by simp
  have "switching_encryption ?q \<noteq> switching_encryption ?s"
    using assms sw st by simp
  then have "switching_encryption ?s \<and> \<not> switching_encryption ?q \<and> all_units_quorum ?q"
    by (rule switching_change_clears)
  then show ?thesis
    using sw aq st by simp
qed

section \<open>A second run writes nothing\<close>

lemma mark_init_leader_settled:
  "members_settled ev ch \<Longrightarrow> mark_init_leader ch = ch"
  by (auto simp: members_settled_def mark_init_leader_def cluster_update_items_def
      bag_update_def update_triv split: option.splits)

lemma update_members_settled:
  assumes "members_settled ev ch"
  shows "update_members ev ch = ch"
proof -
  have m: "mark_init_leader ch = ch"
    using assms by (rule mark_init_leader_settled)
  show ?thesis
  proof (cases "stale_quorum ch \<or> departed_or_elected ev \<or> healthy ch")
    case True
    then have "\<forall>(k, v) \<in> set (update_cluster ch). map_of (cluster ch) k = Some v"
      using assms by (auto simp: members_settled_def update_cluster_def)
    then have "bag_update (cluster ch) (update_cluster ch) = cluster ch"
      by (rule bag_update_triv)
    then show ?thesis
      using True by (simp add: update_members_def Let_def m cluster_update_items_def)
  next
    case False
    then show ?thesis by (simp add: update_members_def Let_def m)
  qed
qed

lemma init_leader_cluster [simp]: "init_leader (ch\<lparr>cluster := d\<rparr>) = init_leader ch"
  by (simp add: init_leader_def)

lemma healthy_cluster [simp]: "healthy (ch\<lparr>cluster := d\<rparr>) = healthy ch"
  by (simp add: healthy_def)

lemma init_leader_mark [simp]: "init_leader (mark_init_leader ch) = init_leader ch"
  by (subst mark_init_leader_frame) simp

lemma servers_mark [simp]: "servers (mark_init_leader ch) = servers ch"
  by (subst mark_init_leader_frame) simp

lemma settled_update_members: "members_settled ev (update_members ev ch)"
proof -
  let ?m = "mark_init_leader ch"
  have vals: "\<forall>kv \<in> set (update_cluster ?m). snd kv = ''added''"
    by (rule update_cluster_values)
  have lead: "\<And>l. init_leader ch = Some l \<Longrightarrow> started l \<Longrightarrow>
      map_of (cluster ?m) (str_nat (unit_id l)) = Some ''added''"
    by (simp add: mark_init_leader_def cluster_update_items_def bag_update_def update_conv')
  show ?thesis
  proof (cases "stale_quorum ?m \<or> departed_or_elected ev \<or> healthy ?m")
    case True
    then have run: "update_members ev ch = ?m\<lparr>cluster := bag_update (cluster ?m) (update_cluster ?m)\<rparr>"
      by (simp add: update_members_def Let_def cluster_update_items_def)
    have a: "\<And>l. init_leader ch = Some l \<Longrightarrow> started l \<Longrightarrow>
        map_of (bag_update (cluster ?m) (update_cluster ?m)) (str_nat (unit_id l)) = Some ''added''"
      using lead vals by (intro map_of_bag_update_const) auto
    have b: "\<And>sv. sv \<in> set (servers ch) \<Longrightarrow> started sv \<Longrightarrow>
        map_of (bag_update (cluster ?m) (update_cluster ?m)) (str_nat (unit_id sv)) = Some ''added''"
    proof -
      fix sv assume "sv \<in> set (servers ch)" "started sv"
      then have "str_nat (unit_id sv) \<in> fst ` set (update_cluster ?m)"
        by (force simp: update_cluster_def)
      then show "map_of (bag_update (cluster ?m) (update_cluster ?m)) (str_nat (unit_id sv)) = Some ''added''"
        using vals by (intro map_of_bag_update_const) auto
    qed
    show ?thesis
      unfolding run members_settled_def using a b by simp
  next
    case False
    then have run: "update_members ev ch = ?m"
      by (simp add: update_members_def Let_def)
    show ?thesis
      unfolding run members_settled_def using False lead by simp
  qed
qed

lemma stale_quorum_update_other:
  "\<not> is_unit_key k \<Longrightarrow>
     stale_quorum (ch\<lparr>cluster := AList.update k v (cluster ch)\<rparr>) = stale_quorum ch"
  by (simp add: stale_quorum_def filter_update_other)

lemma settled_update_other:
  assumes "members_settled ev ch" and "\<not> is_unit_key k"
  shows "members_settled ev (ch\<lparr>cluster := AList.update k v (cluster ch)\<rparr>)"
proof -
  have "\<And>n. str_nat n \<noteq> k"
    using assms(2) is_unit_key_str_nat by auto
  then have "\<And>n. map_of (AList.update k v (cluster ch)) (str_nat n) = map_of (cluster ch) (str_nat n)"
    by (simp add: update_conv')
  then show ?thesis
    using assms by (simp add: members_settled_def stale_quorum_update_other)
qed

lemma settled_switch_quorum:
  "members_settled ev ch \<Longrightarrow> members_settled ev (switch_quorum ch)"
  by (simp add: switch_quorum_def Let_def cluster_update_items_def bag_update_def
      settled_update_other not_unit_key_quorum not_unit_key_switching)

lemma settled_clients [simp]:
  "members_settled ev (ch\<lparr>clients := cs\<rparr>) = members_settled ev ch"
  by (simp add: members_settled_def init_leader_def stale_quorum_def healthy_def)

lemma settled_update_client_data:
  "members_settled ev (update_client_data rdy ch) = members_settled ev ch"
  by (subst update_client_data_frame) simp

lemma client_items_keys: "distinct (map fst (client_items c))"
  by (simp add: client_items_def)

lemma client_update_twice:
  "client_update (client_update c (client_items c)) (client_items (client_update c (client_items c)))
     = client_update c (client_items c)"
  by (simp add: client_update_def client_items_def [of "c\<lparr>client_data := _\<rparr>"]
      client_items_def [symmetric] bag_update_idem client_items_keys)

lemma write_clients_idem: "write_clients (write_clients cs) = write_clients cs"
proof (induction cs)
  case Nil
  then show ?case by simp
next
  case (Cons c cs)
  have p: "password (client_update c (client_items c)) = password c"
    by (simp add: client_update_def)
  show ?case using Cons p by (simp add: client_update_twice)
qed

lemma update_client_data_idem:
  "update_client_data rdy (update_client_data rdy ch) = update_client_data rdy ch"
  by (simp add: update_client_data_def write_clients_idem)

lemma switch_quorum_clients:
  "switch_quorum (ch\<lparr>clients := cs\<rparr>) = (switch_quorum ch)\<lparr>clients := cs\<rparr>"
  by (simp add: switch_quorum_def Let_def cluster_update_items_def all_units_unified_def
      all_units_quorum_def cluster_quorum_def)

lemma switch_quorum_alt:
  assumes "t = (if cluster_tls ch then ''ssl'' else ''non-ssl'')"
  shows "switch_quorum ch =
     (if all_units_unified ch
      then (if all_units_quorum (ch\<lparr>cluster := AList.update ''quorum'' t (cluster ch)\<rparr>)
            then ch\<lparr>cluster := AList.update ''switching-encryption'' []
                                 (AList.update ''quorum'' t (cluster ch))\<rparr>
            else ch\<lparr>cluster := AList.update ''quorum'' t (cluster ch)\<rparr>)
      else ch)"
  using assms by (simp add: switch_quorum_def Let_def cluster_update_items_def bag_update_def)

lemma switch_quorum_idem: "switch_quorum (switch_quorum ch) = switch_quorum ch"
proof (cases "all_units_unified ch")
  case False
  then show ?thesis by (simp add: switch_quorum_def)
next
  case True
  define t where "t = (if cluster_tls ch then ''ssl'' else ''non-ssl'')"
  define c1 where "c1 = ch\<lparr>cluster := AList.update ''quorum'' t (cluster ch)\<rparr>"
  define c2 where "c2 = c1\<lparr>cluster := AList.update ''switching-encryption'' [] (cluster c1)\<rparr>"
  have first: "switch_quorum ch = (if all_units_quorum c1 then c2 else c1)"
    using True switch_quorum_alt [OF t_def] by (simp add: c1_def c2_def)
  have q1: "AList.update ''quorum'' t (cluster c1) = cluster c1"
    by (rule update_triv) (simp add: c1_def update_conv')
  have q2: "AList.update ''quorum'' t (cluster c2) = cluster c2"
    by (rule update_triv) (simp add: c2_def c1_def update_conv')
  have s2: "AList.update ''switching-encryption'' [] (cluster c2) = cluster c2"
    by (rule update_triv) (simp add: c2_def update_conv')
  have u1: "all_units_unified c1" and u2: "all_units_unified c2"
    using True by (simp_all add: c1_def c2_def all_units_unified_def)
  have t1: "t = (if cluster_tls c1 then ''ssl'' else ''non-ssl'')"
    and t2: "t = (if cluster_tls c2 then ''ssl'' else ''non-ssl'')"
    by (simp_all add: c1_def c2_def t_def)
  have aq: "all_units_quorum c2 = all_units_quorum c1"
    by (simp add: c2_def all_units_quorum_def cluster_quorum_def bag_get_def update_conv')
  have r1: "switch_quorum c1 = (if all_units_quorum c1 then c2 else c1)"
    using u1 by (simp add: switch_quorum_alt [OF t1] q1 c2_def)
  have r2: "all_units_quorum c1 \<Longrightarrow> switch_quorum c2 = c2"
    using u2 aq by (simp add: switch_quorum_alt [OF t2] q2 s2)
  show ?thesis
    using r1 r2 by (simp add: first)
qed

lemma stable_clients [simp]: "stable (ch\<lparr>clients := cs\<rparr>) = stable ch"
  by (simp add: stable_def stale_quorum_def all_units_related_def switching_encryption_def
      all_units_quorum_def cluster_quorum_def)

lemma switch_quorum_update_client_data:
  "switch_quorum (update_client_data rdy (switch_quorum ch)) =
     update_client_data rdy (switch_quorum ch)"
proof -
  have "switch_quorum (update_client_data rdy (switch_quorum ch)) =
      (switch_quorum (switch_quorum ch))\<lparr>clients := clients (update_client_data rdy (switch_quorum ch))\<rparr>"
    by (subst update_client_data_frame) (rule switch_quorum_clients)
  also have "\<dots> = update_client_data rdy (switch_quorum ch)"
    by (simp add: switch_quorum_idem update_client_data_frame [symmetric])
  finally show ?thesis .
qed

section \<open>The retry loop\<close>

lemma retry_from_fail:
  "n \<le> stop \<Longrightarrow>
   retry_from stop n body = Inl e \<longleftrightarrow>
     ((\<forall>k. n \<le> k \<and> k \<le> stop \<longrightarrow> isl (body k)) \<and> body stop = Inl e)"
proof (induction stop n body rule: retry_from.induct)
  case (1 stop n body)
  show ?case
  proof (cases "body n")
    case (Inr u)
    then have "retry_from stop n body = Inr u"
      by (simp add: retry_from.simps)
    moreover have "\<not> (\<forall>k. n \<le> k \<and> k \<le> stop \<longrightarrow> isl (body k))"
      using Inr "1.prems" by (metis order_refl sum.disc(2))
    ultimately show ?thesis by simp
  next
    case (Inl x)
    show ?thesis
    proof (cases "stop \<le> n")
      case True
      then have eq: "n = stop" using "1.prems" by simp
      have "retry_from stop n body = Inl x"
        using Inl True by (simp add: retry_from.simps)
      then show ?thesis using Inl eq by auto
    next
      case False
      then have step: "retry_from stop n body = retry_from stop (Suc n) body"
        using Inl by (simp add: retry_from.simps)
      have ih: "retry_from stop (Suc n) body = Inl e \<longleftrightarrow>
          ((\<forall>k. Suc n \<le> k \<and> k \<le> stop \<longrightarrow> isl (body k)) \<and> body stop = Inl e)"
        using "1.IH" [OF Inl False] False by simp
      have "(\<forall>k. n \<le> k \<and> k \<le> stop \<longrightarrow> isl (body k)) \<longleftrightarrow>
            (\<forall>k. Suc n \<le> k \<and> k \<le> stop \<longrightarrow> isl (body k))"
        using Inl by (metis Suc_leD Suc_leI le_neq_implies_less sum.disc(1))
      then show ?thesis using step ih by simp
    qed
  qed
qed

lemma post_upgrade_check_fail:
  "post_upgrade_check obs = Inl e \<longleftrightarrow>
     ((\<forall>n. 1 \<le> n \<and> n \<le> 5 \<longrightarrow> isl (post_upgrade_check_body (obs n)))
      \<and> post_upgrade_check_body (obs 5) = Inl e)"
  unfolding post_upgrade_check_def
  by (subst retry_from_fail) simp_all

lemma pre_check_causes:
  assumes "\<not> idle p" and "pre_upgrade_check p = Inl e"
  shows "e = ClusterNotReadyError default_message cause_leader_not_found
       \<or> e = ClusterNotReadyError default_message cause_unable_to_connect
       \<or> e = ClusterNotReadyError default_message cause_unknown"
proof -
  obtain x where "pre_check_body p = Inl x" and "e = pre_check_except x"
    using assms by (auto simp: pre_upgrade_check_def split: sum.splits)
  then show ?thesis by (cases x) simp_all
qed

lemma pre_check_named_cause_lost:
  assumes "\<not> idle p" and "pre_check_body p = Inl (ClusterNotReadyError m c)"
  shows "pre_upgrade_check p = Inl (ClusterNotReadyError default_message cause_unknown)"
  using assms by (simp add: pre_upgrade_check_def)

section \<open>The claims\<close>

subsection \<open>Encryption mode\<close>

text \<open>
  C1. In a pass of \<^verbatim>\<open>update_quorum\<close> that the leader runs for an event other than its own
  departure, and whose stability check (made after the membership writes of the pass)
  succeeds: if every node's unified flag is true, the target quorum mode becomes
  \<^verbatim>\<open>ssl\<close> when the certificate relationship is present and \<^verbatim>\<open>non-ssl\<close> otherwise. In
  every pass, if some node's unified flag is false, the target mode stays what it was.
\<close>

theorem target_mode_follows_certificate:
  "(is_leader ch \<and> departing_unit ev \<noteq> Some (unit ch) \<and> stable (update_members ev ch)
      \<and> all_units_unified ch \<longrightarrow>
        cluster_quorum (update_quorum rdy ev ch) = (if cluster_tls ch then ''ssl'' else ''non-ssl''))
   \<and> (\<not> all_units_unified ch \<longrightarrow>
        cluster_quorum (update_quorum rdy ev ch) = cluster_quorum ch)"
  by (simp add: cluster_quorum_update_quorum)

theorem target_mode_follows_certificate_witness:
  "cluster_quorum unified_cluster = ''non-ssl''
   \<and> cluster_quorum (update_quorum always_ready OtherEvent unified_cluster) = ''ssl''
   \<and> cluster_quorum (update_quorum always_ready OtherEvent unifying_cluster) = ''non-ssl''"
proof -
  have l: "is_leader unified_cluster" "is_leader unifying_cluster"
    by code_simp+
  have d: "departing_unit OtherEvent \<noteq> Some (unit unified_cluster)"
    "departing_unit OtherEvent \<noteq> Some (unit unifying_cluster)"
    by simp_all
  have s: "stable (update_members OtherEvent unified_cluster)"
    "stable (update_members OtherEvent unifying_cluster)"
    by code_simp+
  have u: "all_units_unified unified_cluster" "\<not> all_units_unified unifying_cluster"
    by code_simp+
  have t: "cluster_tls unified_cluster"
    by code_simp
  have q: "cluster_quorum unified_cluster = ''non-ssl''"
    "cluster_quorum unifying_cluster = ''non-ssl''"
    by code_simp+
  show ?thesis
    using target_mode_follows_certificate [of unified_cluster OtherEvent always_ready]
      target_mode_follows_certificate [of unifying_cluster OtherEvent always_ready]
      l d s u t q
    by simp
qed

text \<open>The leader's own departure: the cluster is stable, every node is unified and the
  certificate relationship is present, yet the pass leaves the target mode at
  \<^verbatim>\<open>non-ssl\<close>.\<close>

theorem own_departure_keeps_target_mode:
  "is_leader unified_cluster
   \<and> stable unified_cluster
   \<and> stable (update_members (RelationDepartedEvent (Some (unit unified_cluster))) unified_cluster)
   \<and> all_units_unified unified_cluster
   \<and> cluster_tls unified_cluster
   \<and> cluster_quorum (update_quorum always_ready
        (RelationDepartedEvent (Some (unit unified_cluster))) unified_cluster) = ''non-ssl''"
  by code_simp

text \<open>
  C2. A pass of \<^verbatim>\<open>update_quorum\<close> changes the switching-encryption flag only by clearing
  it, and only into a state in which every node's reported \<^verbatim>\<open>quorum\<close> field equals the
  target mode that the pass has set.
\<close>

theorem switching_flag_cleared_after_quorum:
  "switching_encryption (update_quorum rdy ev ch) \<noteq> switching_encryption ch \<Longrightarrow>
     switching_encryption ch \<and> \<not> switching_encryption (update_quorum rdy ev ch)
     \<and> all_units_quorum (update_quorum rdy ev ch)"
  by (rule switching_change_clears)

theorem switching_flag_cleared_after_quorum_witness:
  "switching_encryption switched_cluster
   \<and> \<not> switching_encryption (update_quorum always_ready OtherEvent switched_cluster)
   \<and> all_units_quorum (update_quorum always_ready OtherEvent switched_cluster)
   \<and> cluster_quorum (update_quorum always_ready OtherEvent switched_cluster) = ''ssl''"
proof -
  have c: "switching_encryption (update_quorum always_ready OtherEvent switched_cluster)
      \<noteq> switching_encryption switched_cluster"
    by code_simp
  have q: "cluster_quorum (update_quorum always_ready OtherEvent switched_cluster) = ''ssl''"
    by code_simp
  show ?thesis
    using switching_flag_cleared_after_quorum [OF c] q by simp
qed

subsection \<open>Membership\<close>

text \<open>
  C3. \<^verbatim>\<open>update_quorum\<close> is idempotent: for every cluster state and event, a second run on
  the state the first run left writes nothing.
\<close>

theorem update_quorum_idempotent:
  "update_quorum rdy ev (update_quorum rdy ev ch) = update_quorum rdy ev ch"
proof (cases "\<not> is_leader ch \<or> departing_unit ev = Some (unit ch)")
  case True
  then show ?thesis by (simp add: update_quorum_def)
next
  case guard: False
  let ?m = "update_members ev ch"
  have sm: "members_settled ev ?m" by (rule settled_update_members)
  show ?thesis
  proof (cases "stable ?m")
    case False
    then have run: "update_quorum rdy ev ch = ?m"
      using guard by (simp add: update_quorum_def Let_def)
    have "update_members ev ?m = ?m"
      using sm by (rule update_members_settled)
    then show ?thesis
      using guard False by (simp add: run) (simp add: update_quorum_def Let_def)
  next
    case True
    let ?r = "update_client_data rdy (switch_quorum ?m)"
    have run: "update_quorum rdy ev ch = ?r"
      using guard True by (simp add: update_quorum_def Let_def)
    have "members_settled ev ?r"
      using sm by (simp add: settled_update_client_data settled_switch_quorum)
    then have again: "update_members ev ?r = ?r"
      by (rule update_members_settled)
    have tail: "update_client_data rdy (switch_quorum ?r) = ?r"
      by (simp add: switch_quorum_update_client_data update_client_data_idem)
    have "update_quorum rdy ev ?r = ?r"
      using guard by (simp add: update_quorum_def [of rdy ev ?r] Let_def again tail)
    then show ?thesis by (simp add: run)
  qed
qed

theorem update_quorum_idempotent_witness:
  "update_quorum always_ready LeaderElectedEvent bootstrap_cluster \<noteq> bootstrap_cluster
   \<and> update_quorum always_ready LeaderElectedEvent
       (update_quorum always_ready LeaderElectedEvent bootstrap_cluster)
     = update_quorum always_ready LeaderElectedEvent bootstrap_cluster"
proof -
  have "bag_get (cluster (update_quorum always_ready LeaderElectedEvent bootstrap_cluster)) ''0''
      \<noteq> bag_get (cluster bootstrap_cluster) ''0''"
    by code_simp
  then have "update_quorum always_ready LeaderElectedEvent bootstrap_cluster \<noteq> bootstrap_cluster"
    by auto
  then show ?thesis
    using update_quorum_idempotent [of always_ready LeaderElectedEvent bootstrap_cluster]
    by simp
qed

text \<open>
  C4. In a pass of \<^verbatim>\<open>update_quorum\<close> that the leader runs for an event other than its own
  departure, an init leader (the node with the lowest unit identifier) that reports
  started is "added" in the shared membership set when the pass ends, whether or not the
  cluster is stable, all units are related, or anything else holds.
\<close>

theorem init_leader_marked_added:
  assumes "is_leader ch" and "departing_unit ev \<noteq> Some (unit ch)"
    and "init_leader ch = Some l" and "started l"
  shows "bag_get (cluster (update_quorum rdy ev ch)) (str_nat (unit_id l)) = ''added''"
proof -
  have m: "bag_get (cluster (update_members ev ch)) (str_nat (unit_id l)) = ''added''"
    using assms(3,4) by (intro get_update_members_added get_mark_init_leader)
  show ?thesis
    using assms(1,2) m by (simp add: update_quorum_def Let_def get_switch_quorum_other)
qed

theorem init_leader_marked_added_witness:
  "\<not> stable (update_members OtherEvent bootstrap_cluster)
   \<and> \<not> all_units_related bootstrap_cluster
   \<and> bag_get (cluster bootstrap_cluster) ''0'' = []
   \<and> bag_get (cluster (update_quorum always_ready OtherEvent bootstrap_cluster)) ''0'' = ''added''"
proof -
  have l: "is_leader bootstrap_cluster"
    by code_simp
  have d: "departing_unit OtherEvent \<noteq> Some (unit bootstrap_cluster)"
    by simp
  have i: "init_leader bootstrap_cluster = Some (node 0 ''started'' [] ''default - non-ssl'')"
    by code_simp
  have s: "started (node 0 ''started'' [] ''default - non-ssl'')"
    by code_simp
  have k: "str_nat (unit_id (node 0 ''started'' [] ''default - non-ssl'')) = ''0''"
    by code_simp
  have n: "\<not> stable (update_members OtherEvent bootstrap_cluster)"
    "\<not> all_units_related bootstrap_cluster"
    "bag_get (cluster bootstrap_cluster) ''0'' = []"
    by code_simp+
  show ?thesis
    using init_leader_marked_added [OF l d i s, of always_ready] k n by simp
qed

text \<open>The leader's own departure: the init leader reports started and is not marked.\<close>

theorem own_departure_marks_nothing:
  "is_leader bootstrap_cluster
   \<and> init_leader bootstrap_cluster = Some (node 0 ''started'' [] ''default - non-ssl'')
   \<and> started (node 0 ''started'' [] ''default - non-ssl'')
   \<and> bag_get (cluster (update_quorum always_ready
        (RelationDepartedEvent (Some (unit bootstrap_cluster))) bootstrap_cluster)) ''0'' = []"
  by code_simp

subsection \<open>Restarts\<close>

text \<open>
  C5. The handler of the "changed" events requests the restart lock exactly when the
  workload is alive, the peer relation exists, the event is not the node's own departure,
  the node's server is started, and the materialized configuration differs from the applied
  one or the switching-encryption flag is set; the started flag and the switching flag are
  read after the handler's start-up attempt and quorum update.
\<close>

theorem restart_lock_requested_iff:
  "AcquireLock \<in> set (emitted ch (on_cluster_relation_changed rdy alive cfg ev ch)) \<longleftrightarrow>
     alive \<and> peer_relation ch \<and> departing_unit ev \<noteq> Some (unit ch)
     \<and> (cfg \<or> switching_encryption (startup_and_quorum rdy ev ch))
     \<and> unit_server_started (startup_and_quorum rdy ev ch)"
  by (rule acquire_lock_emitted)

theorem restart_lock_requested_iff_witness:
  "unit_server_started (startup_and_quorum always_ready OtherEvent started_unit)
   \<and> AcquireLock \<in> set (emitted started_unit
        (on_cluster_relation_changed always_ready True True OtherEvent started_unit))
   \<and> AcquireLock \<notin> set (emitted started_unit
        (on_cluster_relation_changed always_ready True False OtherEvent started_unit))"
proof -
  have p: "peer_relation started_unit"
    by code_simp
  have d: "departing_unit OtherEvent \<noteq> Some (unit started_unit)"
    by simp
  have s: "unit_server_started (startup_and_quorum always_ready OtherEvent started_unit)"
    by code_simp
  have n: "\<not> switching_encryption (startup_and_quorum always_ready OtherEvent started_unit)"
    by code_simp
  show ?thesis
    using restart_lock_requested_iff [of started_unit always_ready True True OtherEvent]
      restart_lock_requested_iff [of started_unit always_ready True False OtherEvent]
      p d s n
    by simp
qed

text \<open>A node whose configuration differs but whose server has not started (the passwords
  do not exist yet) requests no lock.\<close>

theorem config_changed_without_start_requests_no_lock:
  "\<not> unit_server_started (startup_and_quorum always_ready OtherEvent waiting_unit)
   \<and> AcquireLock \<notin> set (emitted waiting_unit
        (on_cluster_relation_changed always_ready True True OtherEvent waiting_unit))"
  by code_simp

text \<open>
  C6. For a departure event whose departing unit is the handling node's own unit, and so in
  particular the coordinator's, the handler of the "changed" events emits no restart-lock
  acquisition.
\<close>

theorem own_departure_requests_no_lock:
  "AcquireLock \<notin> set (emitted ch
      (on_cluster_relation_changed rdy alive cfg (RelationDepartedEvent (Some (unit ch))) ch))"
  by (simp add: acquire_lock_emitted)

theorem own_departure_requests_no_lock_witness:
  "AcquireLock \<in> set (emitted started_unit
        (on_cluster_relation_changed always_ready True True (RelationDepartedEvent (Some 0))
           started_unit))
   \<and> AcquireLock \<notin> set (emitted started_unit
        (on_cluster_relation_changed always_ready True True (RelationDepartedEvent (Some 1))
           started_unit))"
proof -
  have u: "unit started_unit = 1"
    by code_simp
  have o: "AcquireLock \<in> set (emitted started_unit
        (on_cluster_relation_changed always_ready True True (RelationDepartedEvent (Some 0))
           started_unit))"
    by code_simp
  show ?thesis
    using own_departure_requests_no_lock [of started_unit always_ready True True] u o
    by simp
qed

text \<open>
  C10. A restart callback that finds the cluster unstable defers the event and changes
  nothing else: no restart of the workload, no write of the unit-scope flags. On a stable
  cluster it restarts the workload, waits, and publishes \<^verbatim>\<open>unified\<close>, \<^verbatim>\<open>quorum\<close> and
  \<^verbatim>\<open>password-rotated\<close> in the unit scope.
\<close>

theorem restart_deferred_unless_stable:
  "(\<not> stable ch \<longrightarrow> restart rdy ch = ch\<lparr>effects := effects ch @ [Defer]\<rparr>)
   \<and> (stable ch \<longrightarrow>
        emitted ch (restart rdy ch) = [WorkloadRestart, Sleep 5]
        \<and> servers (restart rdy ch) =
            servers (unit_server_update ch
              [(''unified'', if switching_encryption ch then ''true'' else []),
               (''quorum'', cluster_quorum ch),
               (''password-rotated'', if rotate_passwords ch then ''true'' else [])]))"
  by (simp add: restart_def Let_def emitted_def unit_server_update_def switching_encryption_def
      cluster_quorum_def)

theorem restart_deferred_unless_stable_witness:
  "\<not> stable bootstrap_cluster
   \<and> restart always_ready bootstrap_cluster = bootstrap_cluster\<lparr>effects := [Defer]\<rparr>
   \<and> stable unified_cluster
   \<and> emitted unified_cluster (restart always_ready unified_cluster) = [WorkloadRestart, Sleep 5]
   \<and> servers (restart always_ready unified_cluster) \<noteq> servers unified_cluster"
proof -
  have n: "\<not> stable bootstrap_cluster" "effects bootstrap_cluster = []"
    by code_simp+
  have s: "stable unified_cluster"
    by code_simp
  have w: "servers (unit_server_update unified_cluster
              [(''unified'', if switching_encryption unified_cluster then ''true'' else []),
               (''quorum'', cluster_quorum unified_cluster),
               (''password-rotated'', if rotate_passwords unified_cluster then ''true'' else [])])
           \<noteq> servers unified_cluster"
    by code_simp
  show ?thesis
    using restart_deferred_unless_stable [of bootstrap_cluster always_ready]
      restart_deferred_unless_stable [of unified_cluster always_ready] n s w
    by simp
qed

subsection \<open>Client data\<close>

text \<open>
  C9. \<^verbatim>\<open>update_client_data\<close> changes nothing but the clients' data; it writes the six
  connection fields of a client exactly when the cluster is ready, the calling unit is the
  leader and that client's password is present, and leaves every other client as it was.
\<close>

theorem update_client_data_gated:
  "update_client_data rdy ch =
     ch\<lparr>clients := map (\<lambda>c. if rdy (cluster ch) (cluster_tls ch) (servers ch) \<and> is_leader ch
                                  \<and> password c \<noteq> []
                               then client_update c (client_items c) else c) (clients ch)\<rparr>"
proof -
  have w: "\<And>cs. write_clients cs =
      map (\<lambda>c. if password c \<noteq> [] then client_update c (client_items c) else c) cs"
    subgoal for cs by (induction cs) auto
    done
  show ?thesis
    by (cases "rdy (cluster ch) (cluster_tls ch) (servers ch) \<and> is_leader ch")
       (auto simp: update_client_data_def w)
qed

theorem update_client_data_gated_witness:
  "clients (update_client_data always_ready serving_cluster) =
     [pending_client,
      provisioned_client\<lparr>client_data :=
        [(''uris'', ''zookeeper-k8s-0:2181/app''), (''endpoints'', ''zookeeper-k8s-0''),
         (''tls'', ''disabled''), (''username'', ''relation-7''), (''password'', ''pw7''),
         (''chroot'', ''/app'')]\<rparr>]
   \<and> clients (update_client_data always_ready (serving_cluster\<lparr>is_leader := False\<rparr>)) =
     [pending_client, provisioned_client]"
proof -
  have g: "always_ready (cluster serving_cluster) (cluster_tls serving_cluster)
      (servers serving_cluster)"
    by (simp add: always_ready_def)
  have l: "is_leader serving_cluster"
    by code_simp
  have c: "clients serving_cluster = [pending_client, provisioned_client]"
    by code_simp
  have p: "password pending_client = []" "password provisioned_client \<noteq> []"
    by code_simp+
  have w: "client_update provisioned_client (client_items provisioned_client) =
      provisioned_client\<lparr>client_data :=
        [(''uris'', ''zookeeper-k8s-0:2181/app''), (''endpoints'', ''zookeeper-k8s-0''),
         (''tls'', ''disabled''), (''username'', ''relation-7''), (''password'', ''pw7''),
         (''chroot'', ''/app'')]\<rparr>"
    by code_simp
  show ?thesis
    using update_client_data_gated [of always_ready serving_cluster]
      update_client_data_gated [of always_ready "serving_cluster\<lparr>is_leader := False\<rparr>"]
      g l c p w
    by simp
qed

subsection \<open>Upgrade checks\<close>

text \<open>
  C7. \<^verbatim>\<open>post_upgrade_check\<close>, which runs the pre-upgrade check and then the health probe of
  the workload, is attempted up to five times: it succeeds exactly when one of the first
  five attempts does, and it fails exactly when all five fail, with the error of the
  fifth.
\<close>

theorem post_upgrade_check_five_attempts:
  "(post_upgrade_check obs = Inr () \<longleftrightarrow>
      (\<exists>n. 1 \<le> n \<and> n \<le> 5 \<and> post_upgrade_check_body (obs n) = Inr ()))
   \<and> (post_upgrade_check obs = Inl e \<longleftrightarrow>
        ((\<forall>n. 1 \<le> n \<and> n \<le> 5 \<longrightarrow> isl (post_upgrade_check_body (obs n)))
         \<and> post_upgrade_check_body (obs 5) = Inl e))"
proof -
  have "post_upgrade_check obs = Inr () \<longleftrightarrow> \<not> (\<exists>x. post_upgrade_check obs = Inl x)"
    by (cases "post_upgrade_check obs") auto
  also have "\<dots> \<longleftrightarrow> \<not> (\<forall>n. 1 \<le> n \<and> n \<le> 5 \<longrightarrow> isl (post_upgrade_check_body (obs n)))"
    unfolding post_upgrade_check_fail
    by (cases "post_upgrade_check_body (obs 5)") auto
  also have "\<dots> \<longleftrightarrow> (\<exists>n. 1 \<le> n \<and> n \<le> 5 \<and> post_upgrade_check_body (obs n) = Inr ())"
    by (metis (full_types) old.unit.exhaust sum.collapse(2) sum.disc(2))
  finally show ?thesis
    by (simp add: post_upgrade_check_fail)
qed

theorem post_upgrade_check_five_attempts_witness:
  "isl (post_upgrade_check_body (transient_run 1))
   \<and> isl (post_upgrade_check_body (transient_run 2))
   \<and> post_upgrade_check_body (transient_run 3) = Inr ()
   \<and> post_upgrade_check transient_run = Inr ()"
proof -
  have a: "isl (post_upgrade_check_body (transient_run 1))"
    "isl (post_upgrade_check_body (transient_run 2))"
    "post_upgrade_check_body (transient_run 3) = Inr ()"
    by code_simp+
  have "\<exists>n. 1 \<le> n \<and> n \<le> 5 \<and> post_upgrade_check_body (transient_run n) = Inr ()"
    using a(3) by (intro exI [of _ 3]) simp
  then have "post_upgrade_check transient_run = Inr ()"
    using post_upgrade_check_five_attempts [of transient_run] by simp
  then show ?thesis using a by simp
qed

text \<open>A direct run of \<^verbatim>\<open>pre_upgrade_check\<close> is one attempt: it fails on a member that is
  syncing although the third observation of the same run would have passed.\<close>

theorem pre_upgrade_check_single_attempt:
  "pre_upgrade_check (transient_run 1) = Inl (ClusterNotReadyError default_message cause_unknown)
   \<and> pre_upgrade_check (transient_run 3) = Inr ()"
  by code_simp

text \<open>
  C8. Members that are not all broadcasting: \<^verbatim>\<open>pre_upgrade_check\<close> raises
  \<^verbatim>\<open>ClusterNotReadyError\<close> with the cause "Unknown error", not with the cause of the
  broadcasting check, because the \<^verbatim>\<open>except Exception\<close> clause catches the error that the
  \<^verbatim>\<open>try\<close> block has just raised.
\<close>

theorem named_cause_replaced_by_unknown:
  "pre_check_body probe_not_broadcasting =
     Inl (ClusterNotReadyError default_message
            ''Not all application units are connected and broadcasting in the quorum'')
   \<and> pre_upgrade_check probe_not_broadcasting =
     Inl (ClusterNotReadyError default_message ''Unknown error'')"
  by code_simp

end
